theory Spec2Isabelle
  imports Complex_Main "HOL-Library.Word"
begin

section \<open>JavaScript strings\<close>

text \<open>
  A JavaScript string is a sequence of 16-bit code units; \<open>s.length\<close> counts code units.
  String literals of the source are ASCII and are written with \<open>js\<close>.
\<close>

type_synonym jsstring = "16 word list"

definition js :: "string \<Rightarrow> jsstring" where
  "js s = map (\<lambda>c. of_nat (of_char c)) s"

text \<open>
  \<open>String.prototype.trim\<close> removes the ECMAScript WhiteSpace and LineTerminator code
  points from both ends: TAB, LF, VT, FF, CR, SPACE, NBSP, U+1680, U+2000..U+200A,
  U+2028, U+2029, U+202F, U+205F, U+3000 and U+FEFF.
\<close>

definition isWhiteSpace :: "16 word \<Rightarrow> bool" where
  "isWhiteSpace c \<longleftrightarrow>
     (0x09 \<le> c \<and> c \<le> 0x0D) \<or> c = 0x20 \<or> c = 0xA0 \<or> c = 0x1680 \<or>
     (0x2000 \<le> c \<and> c \<le> 0x200A) \<or> c = 0x2028 \<or> c = 0x2029 \<or> c = 0x202F \<or>
     c = 0x205F \<or> c = 0x3000 \<or> c = 0xFEFF"

definition trim :: "jsstring \<Rightarrow> jsstring" where
  "trim s = rev (dropWhile isWhiteSpace (rev (dropWhile isWhiteSpace s)))"

section \<open>Form validation\<close>

text \<open>
  \<open>req.body\<close> is a dictionary from field names to the submitted text; a field that was
  not sent is absent. The values are strings, as the text fields of a form are.
  \<open>validateFormInput\<close> is the same text in both server files.
\<close>

type_synonym form = "string \<rightharpoonup> jsstring"

record validation =
  valid :: bool
  error :: "string option"

definition required :: "string list" where
  "required = [''name'', ''reg'', ''dept'', ''faculty'', ''gender'', ''expiry'']"

text \<open>\<open>!data[field] || !data[field].trim()\<close>: the field is undefined, empty or blank.\<close>

definition missing :: "form \<Rightarrow> string \<Rightarrow> bool" where
  "missing data field =
     (case data field of None \<Rightarrow> True | Some s \<Rightarrow> s = [] \<or> trim s = [])"

text \<open>The \<open>for (const field of required)\<close> loop: the first missing field, if any.\<close>

fun firstMissing :: "form \<Rightarrow> string list \<Rightarrow> string option" where
  "firstMissing data [] = None"
| "firstMissing data (field # rest) =
     (if missing data field then Some field else firstMissing data rest)"

text \<open>The character class \<open>[A-Za-z0-9 ._/-]\<close>.\<close>

definition regChar :: "16 word \<Rightarrow> bool" where
  "regChar c \<longleftrightarrow>
     (0x41 \<le> c \<and> c \<le> 0x5A) \<or> (0x61 \<le> c \<and> c \<le> 0x7A) \<or> (0x30 \<le> c \<and> c \<le> 0x39) \<or>
     c = 0x20 \<or> c = 0x2E \<or> c = 0x5F \<or> c = 0x2F \<or> c = 0x2D"

text \<open>\<open>/^[A-Za-z0-9 ._/-]+$/.test(s)\<close>: no flags, so \<open>$\<close> is the end of the input.\<close>

definition regPattern :: "jsstring \<Rightarrow> bool" where
  "regPattern s \<longleftrightarrow> s \<noteq> [] \<and> list_all regChar s"

text \<open>
  \<open>data.name\<close> and \<open>data.reg\<close> are read after the loop, when every required field is a
  non-empty string; \<open>field\<close> is that read.
\<close>

definition field :: "form \<Rightarrow> string \<Rightarrow> jsstring" where
  "field data k = (case data k of None \<Rightarrow> [] | Some s \<Rightarrow> s)"

definition validateFormInput :: "form \<Rightarrow> validation" where
  "validateFormInput data =
     (case firstMissing data required of
        Some f \<Rightarrow> \<lparr>valid = False, error = Some (''Missing field: '' @ f)\<rparr>
      | None \<Rightarrow>
          if length (field data ''name'') > 100 then
            \<lparr>valid = False, error = Some ''Name too long (max 100 characters)''\<rparr>
          else if length (field data ''reg'') > 50 then
            \<lparr>valid = False, error = Some ''Registration number too long (max 50 characters)''\<rparr>
          else if \<not> regPattern (field data ''reg'') then
            \<lparr>valid = False, error = Some ''Invalid characters in registration number''\<rparr>
          else \<lparr>valid = True, error = None\<rparr>)"

section \<open>Constants and unit conversion\<close>

text \<open>
  JavaScript numbers are modelled as real numbers: the rounding of IEEE doubles is not
  represented. \<open>Math.round\<close> rounds half up, as \<open>round\<close> does.
\<close>

definition CM_TO_PX :: real where
  "CM_TO_PX = 300 / 2.54"

definition CARD_WIDTH :: nat where
  "CARD_WIDTH = 1012"

definition CARD_HEIGHT :: nat where
  "CARD_HEIGHT = 638"

definition QR_SIZE :: "real \<times> real" where
  "QR_SIZE = (150, 150)"

definition QR_POSITION :: "real \<times> real" where
  "QR_POSITION = (470, 419)"

definition PHOTO_SIZE :: "real \<times> real" where
  "PHOTO_SIZE = (280, 280)"

definition PHOTO_POSITION :: "real \<times> real" where
  "PHOTO_POSITION = (640, 280)"

definition DPI :: real where
  "DPI = 300"

definition ptToPx :: "real \<Rightarrow> int" where
  "ptToPx pt = max 1 (round (pt * DPI / 72.0))"

section \<open>Case conversion and sanitised registration numbers\<close>

text \<open>
  \<open>toUpperCase\<close> and \<open>toLowerCase\<close> are built into the runtime. They are written out
  here for the Basic Latin and Latin-1 Supplement blocks (code units up to U+00FF),
  following the Unicode case mappings: sharp s becomes SS, micro sign becomes U+039C,
  y with diaeresis becomes U+0178. Code units above U+00FF are passed through: the case
  tables of the other blocks are not reproduced.
\<close>

definition upperUnit :: "16 word \<Rightarrow> jsstring" where
  "upperUnit c =
     (if 0x61 \<le> c \<and> c \<le> 0x7A then [c - 0x20]
      else if c = 0xB5 then [0x39C]
      else if c = 0xDF then [0x53, 0x53]
      else if 0xE0 \<le> c \<and> c \<le> 0xFE \<and> c \<noteq> 0xF7 then [c - 0x20]
      else if c = 0xFF then [0x178]
      else [c])"

definition toUpperCase :: "jsstring \<Rightarrow> jsstring" where
  "toUpperCase s = concat (map upperUnit s)"

definition lowerUnit :: "16 word \<Rightarrow> 16 word" where
  "lowerUnit c =
     (if 0x41 \<le> c \<and> c \<le> 0x5A then c + 0x20
      else if 0xC0 \<le> c \<and> c \<le> 0xDE \<and> c \<noteq> 0xD7 then c + 0x20
      else c)"

definition toLowerCase :: "jsstring \<Rightarrow> jsstring" where
  "toLowerCase s = map lowerUnit s"

text \<open>
  The class \<open>[a-z0-9_-]\<close> under the \<open>i\<close> flag (without \<open>u\<close>, so no non-ASCII
  code unit folds onto an ASCII letter), and \<open>reg.replace(/[^a-z0-9_-]/gi, '_')\<close>.
\<close>

definition safeChar :: "16 word \<Rightarrow> bool" where
  "safeChar c \<longleftrightarrow>
     (0x41 \<le> c \<and> c \<le> 0x5A) \<or> (0x61 \<le> c \<and> c \<le> 0x7A) \<or> (0x30 \<le> c \<and> c \<le> 0x39) \<or>
     c = 0x5F \<or> c = 0x2D"

definition safeReg :: "jsstring \<Rightarrow> jsstring" where
  "safeReg reg = map (\<lambda>c. if safeChar c then c else 0x5F) reg"

section \<open>Paths\<close>

text \<open>
  Every path of the program is built by \<open>path.join\<close> from \<open>__dirname\<close>, an absolute
  normalised path. Such a path is kept as its list of segments below the root.
  \<open>path.join(base, s)\<close> normalises \<open>base + '/' + s\<close>: the segments of \<open>s\<close> are
  taken in turn, empty and \<open>.\<close> segments are dropped and \<open>..\<close> removes the last
  segment (nothing at the root).
\<close>

type_synonym path = "jsstring list"

fun splitOn :: "'a \<Rightarrow> 'a list \<Rightarrow> 'a list list" where
  "splitOn d [] = [] # []"
| "splitOn d (c # cs) =
     (if c = d then [] # splitOn d cs
      else (case splitOn d cs of [] \<Rightarrow> [c] # [] | seg # segs \<Rightarrow> (c # seg) # segs))"

definition joinStep :: "path \<Rightarrow> jsstring \<Rightarrow> path" where
  "joinStep p seg =
     (if seg = [] \<or> seg = js ''.'' then p
      else if seg = js ''..'' then butlast p
      else p @ [seg])"

definition path_join :: "path \<Rightarrow> jsstring \<Rightarrow> path" where
  "path_join base s = foldl joinStep base (splitOn 0x2F s)"

text \<open>
  \<open>path.extname\<close> (POSIX): the part of the last path component from its last dot on;
  empty when the component has no dot, when its only dot is its first character, and for
  the component \<open>..\<close>.
\<close>

definition lastComponent :: "jsstring \<Rightarrow> jsstring" where
  "lastComponent p =
     (case filter (\<lambda>seg. seg \<noteq> []) (splitOn 0x2F p) of [] \<Rightarrow> [] | segs \<Rightarrow> last segs)"

definition extname :: "jsstring \<Rightarrow> jsstring" where
  "extname p =
     (let comp = lastComponent p;
          ext = rev (takeWhile (\<lambda>c. c \<noteq> 0x2E) (rev comp))
      in if 0x2E \<notin> set comp then []
         else if length ext + 1 = length comp then []
         else if comp = js ''..'' then []
         else 0x2E # ext)"

section \<open>The upload filter\<close>

record upload_file =
  originalname :: jsstring
  mimetype :: jsstring
  content :: "8 word list"

fun startsWith :: "'a list \<Rightarrow> 'a list \<Rightarrow> bool" where
  "startsWith s [] = True"
| "startsWith [] (w # ws) = False"
| "startsWith (c # cs) (w # ws) = (c = w \<and> startsWith cs ws)"

fun hasSubstring :: "'a list \<Rightarrow> 'a list \<Rightarrow> bool" where
  "hasSubstring [] w = (w = [])"
| "hasSubstring (c # cs) w = (startsWith (c # cs) w \<or> hasSubstring cs w)"

text \<open>\<open>/jpeg|jpg|png|gif/.test(s)\<close>: the pattern has no anchors.\<close>

definition allowedTypes :: "jsstring \<Rightarrow> bool" where
  "allowedTypes s \<longleftrightarrow>
     hasSubstring s (js ''jpeg'') \<or> hasSubstring s (js ''jpg'') \<or> hasSubstring s (js ''png'') \<or>
     hasSubstring s (js ''gif'')"

definition fileFilter :: "upload_file \<Rightarrow> bool" where
  "fileFilter file =
     (let extname_ok = allowedTypes (toLowerCase (extname (originalname file)));
          mimetype_ok = allowedTypes (mimetype file)
      in mimetype_ok \<and> extname_ok)"

definition fileSizeLimit :: nat where
  "fileSizeLimit = 16 * 1024 * 1024"

section \<open>Canvas, QR encoder, file system and storage provider\<close>

text \<open>
  The libraries the server calls are outside the repository. What they answer is a
  parameter of the model (\<open>env\<close>); the calls that render, write or upload are
  recorded, in order, as a list of effects.
\<close>

datatype src = SrcPath path | SrcBuffer "8 word list" | SrcUrl jsstring

datatype image = Image src

record css_font =
  px :: int
  family :: string

datatype draw_op =
    DrawImage image real real real real
  | FillText jsstring real real css_font string

record canvas =
  cwidth :: nat
  cheight :: nat
  fillStyle :: string
  font :: css_font
  ops :: "draw_op list"

definition createCanvas :: "nat \<Rightarrow> nat \<Rightarrow> canvas" where
  "createCanvas w h =
     \<lparr>cwidth = w, cheight = h, fillStyle = ''#000000'',
      font = \<lparr>px = 10, family = ''sans-serif''\<rparr>, ops = []\<rparr>"

definition drawImage :: "image \<Rightarrow> real \<Rightarrow> real \<Rightarrow> real \<Rightarrow> real \<Rightarrow> canvas \<Rightarrow> canvas" where
  "drawImage img x y w h c = c\<lparr>ops := ops c @ [DrawImage img x y w h]\<rparr>"

definition fillText :: "jsstring \<Rightarrow> real \<Rightarrow> real \<Rightarrow> canvas \<Rightarrow> canvas" where
  "fillText t x y c = c\<lparr>ops := ops c @ [FillText t x y (font c) (fillStyle c)]\<rparr>"

record qr_options =
  qr_width :: real
  qr_margin :: nat
  errorCorrectionLevel :: "string option"

record upload_options =
  folder :: string
  public_id :: "jsstring option"
  transformation :: "(nat \<times> nat \<times> string) option"
  resource_type :: string

datatype effect =
    QrRender jsstring qr_options
  | FileWrite path "8 word list"
  | CanvasEncode canvas
  | CloudUpload upload_options "8 word list" "jsstring option"

datatype error =
    QrError
  | FrontTemplateNotFound path
  | BackTemplateNotFound path
  | ImageLoadError src
  | UploadError upload_options
  | WriteError path
  | OnlyImageFiles
  | LimitFileSize

record env =
  dirname :: path
  fontLoaded :: bool
  existsSync :: "path \<Rightarrow> bool"
  loadable :: "src \<Rightarrow> bool"
  qrEncode :: "jsstring \<Rightarrow> qr_options \<Rightarrow> 8 word list option"
  toBuffer :: "canvas \<Rightarrow> 8 word list"
  cloudStore :: "upload_options \<Rightarrow> 8 word list \<Rightarrow> jsstring option"
  writable :: "path \<Rightarrow> bool"

text \<open>
  An asynchronous computation either throws or returns, and leaves its effects.
  \<open>await m k\<close> is \<open>const x = await m; k x\<close>: a rejection of \<open>m\<close> skips \<open>k\<close>.
\<close>

type_synonym 'a io = "(error + 'a) \<times> effect list"

definition ok :: "'a \<Rightarrow> 'a io" where
  "ok x = (Inr x, [])"

definition throw :: "error \<Rightarrow> 'a io" where
  "throw e = (Inl e, [])"

definition await :: "'a io \<Rightarrow> ('a \<Rightarrow> 'b io) \<Rightarrow> 'b io" where
  "await m k =
     (case m of
        (Inl e, t) \<Rightarrow> (Inl e, t)
      | (Inr x, t) \<Rightarrow> (case k x of (r, t') \<Rightarrow> (r, t @ t')))"

definition loadImage :: "env \<Rightarrow> src \<Rightarrow> image io" where
  "loadImage env s = (if loadable env s then ok (Image s) else throw (ImageLoadError s))"

definition canvasToBuffer :: "env \<Rightarrow> canvas \<Rightarrow> (8 word list) io" where
  "canvasToBuffer env c = (Inr (toBuffer env c), [CanvasEncode c])"

definition writeFile :: "env \<Rightarrow> path \<Rightarrow> 8 word list \<Rightarrow> unit io" where
  "writeFile env p buf =
     (if writable env p then (Inr (), [FileWrite p buf]) else throw (WriteError p))"

text \<open>
  The promise around \<open>cloudinary.uploader.upload_stream\<close>: one call, resolved with the
  provider's result (its \<open>secure_url\<close>) or rejected with its error.
\<close>

definition upload_stream :: "env \<Rightarrow> upload_options \<Rightarrow> 8 word list \<Rightarrow> jsstring io" where
  "upload_stream env opts buf =
     (case cloudStore env opts buf of
        None \<Rightarrow> (Inl (UploadError opts), [CloudUpload opts buf None])
      | Some url \<Rightarrow> (Inr url, [CloudUpload opts buf (Some url)]))"

definition TEMPLATES_FOLDER :: "env \<Rightarrow> path" where
  "TEMPLATES_FOLDER env = path_join (dirname env) (js ''static'')"

definition UPLOAD_FOLDER :: "env \<Rightarrow> path" where
  "UPLOAD_FOLDER env = path_join (path_join (dirname env) (js ''static'')) (js ''uploads'')"

definition OUTPUT_FOLDER :: "env \<Rightarrow> path" where
  "OUTPUT_FOLDER env = path_join (path_join (dirname env) (js ''static'')) (js ''id_cards'')"

section \<open>QR code\<close>

definition qrText :: "jsstring \<Rightarrow> jsstring \<Rightarrow> jsstring \<Rightarrow> jsstring" where
  "qrText name reg dept =
     js ''Name: '' @ name @ [0x0A] @ js ''Reg: '' @ reg @ [0x0A] @ js ''Dept: '' @ dept"

definition qrOptions :: qr_options where
  "qrOptions = \<lparr>qr_width = fst QR_SIZE, qr_margin = 1, errorCorrectionLevel = None\<rparr>"

text \<open>\<open>generateQRCode(data)\<close> of the Cloudinary server: \<open>QRCode.toBuffer\<close>.\<close>

definition generateQRCode :: "env \<Rightarrow> jsstring \<Rightarrow> jsstring \<Rightarrow> jsstring \<Rightarrow> (8 word list) io" where
  "generateQRCode env name reg dept =
     (case qrEncode env (qrText name reg dept) qrOptions of
        None \<Rightarrow> (Inl QrError, [QrRender (qrText name reg dept) qrOptions])
      | Some buf \<Rightarrow> (Inr buf, [QrRender (qrText name reg dept) qrOptions]))"

text \<open>
  \<open>generateQRCode(data, outputPath)\<close> of the disk server: \<open>QRCode.toFile\<close> encodes and
  writes the PNG to \<open>outputPath\<close>.
\<close>

definition generateQRCode_disk :: "env \<Rightarrow> jsstring \<Rightarrow> jsstring \<Rightarrow> jsstring \<Rightarrow> path \<Rightarrow> unit io" where
  "generateQRCode_disk env name reg dept outputPath =
     (case qrEncode env (qrText name reg dept) qrOptions of
        None \<Rightarrow> (Inl QrError, [QrRender (qrText name reg dept) qrOptions])
      | Some buf \<Rightarrow>
          await (Inr (), [QrRender (qrText name reg dept) qrOptions])
            (\<lambda>_. writeFile env outputPath buf))"

section \<open>Card generation\<close>

text \<open>
  \<open>generateIDCard\<close> is called with the validated request body: its six fields are
  strings.
\<close>

record card_data =
  name :: jsstring
  reg :: jsstring
  dept :: jsstring
  faculty :: jsstring
  gender :: jsstring
  expiry :: jsstring

record card_urls =
  frontUrl :: jsstring
  backUrl :: jsstring

record card_files =
  frontOutput :: path
  backOutput :: path

definition fontFamily :: "env \<Rightarrow> string" where
  "fontFamily env = (if fontLoaded env then ''ArialBold'' else ''Arial, sans-serif'')"

text \<open>
  The text of the back card, from \<open>backCtx.fillStyle = '#000000'\<close> to the expiry date.
  The CSS font string \<open>`${ptToPx(7)}px ${...}`\<close> is kept as its size and family.
\<close>

definition drawBackText :: "env \<Rightarrow> card_data \<Rightarrow> canvas \<Rightarrow> canvas" where
  "drawBackText env formData backCtx =
     (let c = backCtx\<lparr>fillStyle := ''#000000''\<rparr>;
          c = c\<lparr>font := \<lparr>px = ptToPx 7, family = fontFamily env\<rparr>\<rparr>;
          c = fillText (toUpperCase (name formData)) (0.74 * CM_TO_PX)
                (0.60 * CM_TO_PX + of_int (ptToPx 7)) c;
          c = c\<lparr>font := \<lparr>px = ptToPx 4.319, family = fontFamily env\<rparr>\<rparr>;
          blockX = 1.81 * CM_TO_PX;
          c = fillText (faculty formData) blockX (1.03 * CM_TO_PX + of_int (ptToPx 4.319)) c;
          c = fillText (dept formData) blockX (1.38 * CM_TO_PX + of_int (ptToPx 4.319)) c;
          c = fillText (reg formData) blockX (1.73 * CM_TO_PX + of_int (ptToPx 4.319)) c;
          c = fillText (gender formData) blockX (2.08 * CM_TO_PX + of_int (ptToPx 4.319)) c;
          c = c\<lparr>font := \<lparr>px = ptToPx 6, family = fontFamily env\<rparr>\<rparr>;
          expX = 0.74 * CM_TO_PX;
          c = fillText (js ''EXPIRY'') expX (3.87 * CM_TO_PX + of_int (ptToPx 6)) c;
          c = fillText (expiry formData) expX (4.17 * CM_TO_PX + of_int (ptToPx 6)) c
      in c)"

definition generatedOptions :: "jsstring \<Rightarrow> upload_options" where
  "generatedOptions public =
     \<lparr>folder = ''futo-id-cards/generated'', public_id = Some public,
      transformation = None, resource_type = ''image''\<rparr>"

text \<open>\<open>generateIDCard(formData, photoUrl)\<close> of the Cloudinary server.\<close>

definition generateIDCard :: "env \<Rightarrow> card_data \<Rightarrow> jsstring \<Rightarrow> card_urls io" where
  "generateIDCard env formData photoUrl =
     (let safe = safeReg (reg formData) in
      await (generateQRCode env (name formData) (reg formData) (dept formData)) (\<lambda>qrBuffer.
      let frontTemplatePath = path_join (TEMPLATES_FOLDER env) (js ''front_template.png'');
          backTemplatePath = path_join (TEMPLATES_FOLDER env) (js ''back_template.png'')
      in
      if \<not> existsSync env frontTemplatePath then throw (FrontTemplateNotFound frontTemplatePath)
      else if \<not> existsSync env backTemplatePath then throw (BackTemplateNotFound backTemplatePath)
      else
      let frontCanvas = createCanvas CARD_WIDTH CARD_HEIGHT in
      await (loadImage env (SrcPath frontTemplatePath)) (\<lambda>frontTemplate.
      let frontCanvas = drawImage frontTemplate 0 0 (real CARD_WIDTH) (real CARD_HEIGHT) frontCanvas in
      await (loadImage env (SrcBuffer qrBuffer)) (\<lambda>qrImage.
      let frontCanvas = drawImage qrImage (fst QR_POSITION) (snd QR_POSITION)
                          (fst QR_SIZE) (snd QR_SIZE) frontCanvas in
      await (loadImage env (SrcUrl photoUrl)) (\<lambda>photoImage.
      let frontCanvas = drawImage photoImage (fst PHOTO_POSITION) (snd PHOTO_POSITION)
                          (fst PHOTO_SIZE) (snd PHOTO_SIZE) frontCanvas in
      await (canvasToBuffer env frontCanvas) (\<lambda>frontBuffer.
      await (upload_stream env (generatedOptions (js ''futo_'' @ safe @ js ''_front'')) frontBuffer)
        (\<lambda>frontUploadResult.
      let backCanvas = createCanvas CARD_WIDTH CARD_HEIGHT in
      await (loadImage env (SrcPath backTemplatePath)) (\<lambda>backTemplate.
      let backCanvas = drawImage backTemplate 0 0 (real CARD_WIDTH) (real CARD_HEIGHT) backCanvas;
          backCanvas = drawBackText env formData backCanvas
      in
      await (canvasToBuffer env backCanvas) (\<lambda>backBuffer.
      await (upload_stream env (generatedOptions (js ''futo_'' @ safe @ js ''_back'')) backBuffer)
        (\<lambda>backUploadResult.
      ok \<lparr>frontUrl = frontUploadResult, backUrl = backUploadResult\<rparr>))))))))))"

text \<open>\<open>generateIDCard(formData, photoPath)\<close> of the disk server.\<close>

definition generateIDCard_disk :: "env \<Rightarrow> card_data \<Rightarrow> path \<Rightarrow> card_files io" where
  "generateIDCard_disk env formData photoPath =
     (let safe = safeReg (reg formData);
          qrPath = path_join (OUTPUT_FOLDER env) (js ''futo_'' @ safe @ js ''_qr.png'')
      in
      await (generateQRCode_disk env (name formData) (reg formData) (dept formData) qrPath) (\<lambda>_.
      let frontTemplatePath = path_join (TEMPLATES_FOLDER env) (js ''front_template.png'');
          backTemplatePath = path_join (TEMPLATES_FOLDER env) (js ''back_template.png'')
      in
      if \<not> existsSync env frontTemplatePath then throw (FrontTemplateNotFound frontTemplatePath)
      else if \<not> existsSync env backTemplatePath then throw (BackTemplateNotFound backTemplatePath)
      else
      let frontCanvas = createCanvas CARD_WIDTH CARD_HEIGHT in
      await (loadImage env (SrcPath frontTemplatePath)) (\<lambda>frontTemplate.
      let frontCanvas = drawImage frontTemplate 0 0 (real CARD_WIDTH) (real CARD_HEIGHT) frontCanvas in
      await (loadImage env (SrcPath qrPath)) (\<lambda>qrImage.
      let frontCanvas = drawImage qrImage (fst QR_POSITION) (snd QR_POSITION)
                          (fst QR_SIZE) (snd QR_SIZE) frontCanvas in
      await (loadImage env (SrcPath photoPath)) (\<lambda>photoImage.
      let frontCanvas = drawImage photoImage (fst PHOTO_POSITION) (snd PHOTO_POSITION)
                          (fst PHOTO_SIZE) (snd PHOTO_SIZE) frontCanvas;
          frontOut = path_join (OUTPUT_FOLDER env) (js ''futo_'' @ safe @ js ''_front.png'')
      in
      await (canvasToBuffer env frontCanvas) (\<lambda>frontBuffer.
      await (writeFile env frontOut frontBuffer) (\<lambda>_.
      let backCanvas = createCanvas CARD_WIDTH CARD_HEIGHT in
      await (loadImage env (SrcPath backTemplatePath)) (\<lambda>backTemplate.
      let backCanvas = drawImage backTemplate 0 0 (real CARD_WIDTH) (real CARD_HEIGHT) backCanvas;
          backCanvas = drawBackText env formData backCanvas;
          backOut = path_join (OUTPUT_FOLDER env) (js ''futo_'' @ safe @ js ''_back.png'')
      in
      await (canvasToBuffer env backCanvas) (\<lambda>backBuffer.
      await (writeFile env backOut backBuffer) (\<lambda>_.
      ok \<lparr>frontOutput = frontOut, backOutput = backOut\<rparr>))))))))))"

section \<open>The HTTP surface\<close>

text \<open>
  A multipart request: the text fields (\<open>body\<close>), those of them that precede the photo
  part (\<open>bodyAtFile\<close>, what \<open>req.body\<close> holds when multer names the file) and the photo
  part, if any.
\<close>

record request =
  body :: form
  bodyAtFile :: form
  photo :: "upload_file option"

datatype payload =
    JsonError "string option"
  | JsonCaught error
  | JsonUnhandled error
  | JsonSuccess jsstring jsstring
  | SentFile path

record response =
  status :: nat
  payload :: payload

text \<open>
  \<open>upload.single('photo')\<close> with the configuration of the source. Multer calls
  \<open>fileFilter\<close> when the file part starts, passes its error on, reports a part longer
  than \<open>limits.fileSize\<close> as the MulterError \<open>LIMIT_FILE_SIZE\<close> (removing what the disk
  storage had written), and otherwise hands the part to the storage.
\<close>

definition multer_memory :: "request \<Rightarrow> (upload_file option) io" where
  "multer_memory req =
     (case photo req of
        None \<Rightarrow> ok None
      | Some file \<Rightarrow>
          if \<not> fileFilter file then throw OnlyImageFiles
          else if length (content file) > fileSizeLimit then throw LimitFileSize
          else ok (Some file))"

text \<open>The \<open>filename\<close> callback of \<open>multer.diskStorage\<close>.\<close>

definition filename :: "request \<Rightarrow> upload_file \<Rightarrow> jsstring" where
  "filename req file =
     (let reg = (case bodyAtFile req ''reg'' of
                   None \<Rightarrow> js ''temp''
                 | Some r \<Rightarrow> if r = [] then js ''temp'' else r);
          ext = extname (originalname file);
          safe = safeReg reg
      in safe @ js ''_photo'' @ ext)"

definition multer_disk :: "env \<Rightarrow> request \<Rightarrow> ((upload_file \<times> path) option) io" where
  "multer_disk env req =
     (case photo req of
        None \<Rightarrow> ok None
      | Some file \<Rightarrow>
          if \<not> fileFilter file then throw OnlyImageFiles
          else if length (content file) > fileSizeLimit then throw LimitFileSize
          else
            let finalPath = path_join (UPLOAD_FOLDER env) (filename req file) in
            await (writeFile env finalPath (content file)) (\<lambda>_. ok (Some (file, finalPath))))"

text \<open>The error-handling middleware.\<close>

definition errorHandler :: "error \<Rightarrow> response" where
  "errorHandler err =
     (if err = LimitFileSize then
        \<lparr>status = 413, payload = JsonError (Some ''File too large (max 16MB)'')\<rparr>
      else \<lparr>status = 500, payload = JsonUnhandled err\<rparr>)"

definition bodyData :: "form \<Rightarrow> card_data" where
  "bodyData b =
     \<lparr>name = field b ''name'', reg = field b ''reg'', dept = field b ''dept'',
      faculty = field b ''faculty'', gender = field b ''gender'', expiry = field b ''expiry''\<rparr>"

definition uploadsOptions :: upload_options where
  "uploadsOptions =
     \<lparr>folder = ''futo-id-cards/uploads'', public_id = None,
      transformation = Some (280, 280, ''fill''), resource_type = ''image''\<rparr>"

text \<open>The handler of \<open>POST /generate\<close> in the Cloudinary server.\<close>

definition handleGenerate :: "env \<Rightarrow> form \<Rightarrow> upload_file option \<Rightarrow> response \<times> effect list" where
  "handleGenerate env b file =
     (let validation = validateFormInput b in
      if \<not> valid validation then (\<lparr>status = 400, payload = JsonError (error validation)\<rparr>, [])
      else case file of
        None \<Rightarrow> (\<lparr>status = 400, payload = JsonError (Some ''No photo uploaded'')\<rparr>, [])
      | Some f \<Rightarrow>
          (case await (upload_stream env uploadsOptions (content f))
                  (\<lambda>photoUrl. generateIDCard env (bodyData b) photoUrl) of
             (Inl e, t) \<Rightarrow> (\<lparr>status = 500, payload = JsonCaught e\<rparr>, t)
           | (Inr urls, t) \<Rightarrow>
               (\<lparr>status = 200, payload = JsonSuccess (frontUrl urls) (backUrl urls)\<rparr>, t)))"

definition post_generate :: "env \<Rightarrow> request \<Rightarrow> response \<times> effect list" where
  "post_generate env req =
     (case multer_memory req of
        (Inl err, t) \<Rightarrow> (errorHandler err, t)
      | (Inr file, t) \<Rightarrow> (case handleGenerate env (body req) file of (r, t') \<Rightarrow> (r, t @ t')))"

text \<open>The handler of \<open>POST /generate\<close> in the disk server.\<close>

definition handleGenerate_disk ::
  "env \<Rightarrow> form \<Rightarrow> (upload_file \<times> path) option \<Rightarrow> response \<times> effect list" where
  "handleGenerate_disk env b file =
     (let validation = validateFormInput b in
      if \<not> valid validation then (\<lparr>status = 400, payload = JsonError (error validation)\<rparr>, [])
      else case file of
        None \<Rightarrow> (\<lparr>status = 400, payload = JsonError (Some ''No photo uploaded'')\<rparr>, [])
      | Some (f, filePath) \<Rightarrow>
          (case generateIDCard_disk env (bodyData b) filePath of
             (Inl e, t) \<Rightarrow> (\<lparr>status = 500, payload = JsonCaught e\<rparr>, t)
           | (Inr files, t) \<Rightarrow> (\<lparr>status = 200, payload = SentFile (frontOutput files)\<rparr>, t)))"

definition post_generate_disk :: "env \<Rightarrow> request \<Rightarrow> response \<times> effect list" where
  "post_generate_disk env req =
     (case multer_disk env req of
        (Inl err, t) \<Rightarrow> (errorHandler err, t)
      | (Inr file, t) \<Rightarrow>
          (case handleGenerate_disk env (body req) file of (r, t') \<Rightarrow> (r, t @ t')))"

text \<open>\<open>GET /download-back/:reg\<close> of the disk server.\<close>

definition download_back :: "env \<Rightarrow> jsstring \<Rightarrow> response" where
  "download_back env regParam =
     (let safe = safeReg regParam;
          backPath = path_join (OUTPUT_FOLDER env) (js ''futo_'' @ safe @ js ''_back.png'')
      in if existsSync env backPath then \<lparr>status = 200, payload = SentFile backPath\<rparr>
         else \<lparr>status = 404, payload = JsonError (Some ''Back card not found'')\<rparr>)"

section \<open>Reading the effects\<close>

text \<open>
  The canvases that were encoded, the calls made to the storage provider, what the
  provider holds as a result, the files written, and the texts drawn on a canvas, each in
  order.
\<close>

fun encoded :: "effect list \<Rightarrow> canvas list" where
  "encoded [] = []"
| "encoded (CanvasEncode c # es) = c # encoded es"
| "encoded (e # es) = encoded es"

fun uploadCalls :: "effect list \<Rightarrow> effect list" where
  "uploadCalls [] = []"
| "uploadCalls (CloudUpload opts buf r # es) = CloudUpload opts buf r # uploadCalls es"
| "uploadCalls (e # es) = uploadCalls es"

fun stored :: "effect list \<Rightarrow> (upload_options \<times> 8 word list) list" where
  "stored [] = []"
| "stored (CloudUpload opts buf (Some url) # es) = (opts, buf) # stored es"
| "stored (e # es) = stored es"

fun filesWritten :: "effect list \<Rightarrow> path list" where
  "filesWritten [] = []"
| "filesWritten (FileWrite p buf # es) = p # filesWritten es"
| "filesWritten (e # es) = filesWritten es"


text \<open>
  The two canvases as \<open>generateIDCard\<close> has drawn them when every image loaded: the front
  card from the front template, the QR image and the photo; the back card from the back
  template and the text.
\<close>

definition frontTemplatePath :: "env \<Rightarrow> path" where
  "frontTemplatePath env = path_join (TEMPLATES_FOLDER env) (js ''front_template.png'')"

definition backTemplatePath :: "env \<Rightarrow> path" where
  "backTemplatePath env = path_join (TEMPLATES_FOLDER env) (js ''back_template.png'')"

definition frontCard :: "env \<Rightarrow> src \<Rightarrow> src \<Rightarrow> canvas" where
  "frontCard env qrSrc photoSrc =
     drawImage (Image photoSrc) (fst PHOTO_POSITION) (snd PHOTO_POSITION)
       (fst PHOTO_SIZE) (snd PHOTO_SIZE)
       (drawImage (Image qrSrc) (fst QR_POSITION) (snd QR_POSITION) (fst QR_SIZE) (snd QR_SIZE)
          (drawImage (Image (SrcPath (frontTemplatePath env))) 0 0
             (real CARD_WIDTH) (real CARD_HEIGHT) (createCanvas CARD_WIDTH CARD_HEIGHT)))"

definition backCard :: "env \<Rightarrow> card_data \<Rightarrow> canvas" where
  "backCard env formData =
     drawBackText env formData
       (drawImage (Image (SrcPath (backTemplatePath env))) 0 0
          (real CARD_WIDTH) (real CARD_HEIGHT) (createCanvas CARD_WIDTH CARD_HEIGHT))"

definition frontOptions :: "card_data \<Rightarrow> upload_options" where
  "frontOptions formData = generatedOptions (js ''futo_'' @ safeReg (reg formData) @ js ''_front'')"

definition backOptions :: "card_data \<Rightarrow> upload_options" where
  "backOptions formData = generatedOptions (js ''futo_'' @ safeReg (reg formData) @ js ''_back'')"

text \<open>Where the disk server puts the QR image.\<close>

definition qrPath :: "env \<Rightarrow> card_data \<Rightarrow> path" where
  "qrPath env formData =
     OUTPUT_FOLDER env @ [js ''futo_'' @ safeReg (reg formData) @ js ''_qr.png'']"

section \<open>Sample inputs\<close>

definition jane :: form where
  "jane =
     [''name'' \<mapsto> js ''Jane Doe'', ''reg'' \<mapsto> js ''2020/1234567'',
      ''dept'' \<mapsto> js ''Computer Science'', ''faculty'' \<mapsto> js ''SICT'',
      ''gender'' \<mapsto> js ''Female'', ''expiry'' \<mapsto> js ''2024/2025'']"

definition janeData :: card_data where
  "janeData =
     \<lparr>name = js ''Jane Doe'', reg = js ''2020/1234567'', dept = js ''Computer Science'',
      faculty = js ''SICT'', gender = js ''Female'', expiry = js ''2024/2025''\<rparr>"

definition passport :: upload_file where
  "passport = \<lparr>originalname = js ''me.png'', mimetype = js ''image/png'', content = [1, 2, 3]\<rparr>"

text \<open>An environment in which every collaborator succeeds.\<close>

definition sunny :: env where
  "sunny =
     \<lparr>dirname = [js ''app''], fontLoaded = True, existsSync = (\<lambda>p. True),
      loadable = (\<lambda>s. True), qrEncode = (\<lambda>t opts. Some [0x51, 0x52]),
      toBuffer = (\<lambda>c. [0x89, 0x50, 0x4E, 0x47]),
      cloudStore = (\<lambda>opts buf. Some (js ''https://cdn/img'')),
      writable = (\<lambda>p. True)\<rparr>"

text \<open>The same, with the front template absent.\<close>

definition noFront :: env where
  "noFront = sunny\<lparr>existsSync := (\<lambda>p. p \<noteq> [js ''app'', js ''static'', js ''front_template.png''])\<rparr>"

text \<open>The same, with a storage provider that refuses the back card.\<close>

definition backRefused :: env where
  "backRefused =
     sunny\<lparr>cloudStore := (\<lambda>opts buf.
        if public_id opts = Some (js ''futo_2020_1234567_back'') then None
        else Some (js ''https://cdn/img''))\<rparr>"

section \<open>The asynchronous steps\<close>

lemma await_Inl [simp]: "await (Inl e, t) k = (Inl e, t)"
  by (simp add: await_def)

lemma await_Inr [simp]: "await (Inr x, t) k = (fst (k x), t @ snd (k x))"
  by (simp add: await_def split: prod.splits)

lemma await_ok [simp]: "await (ok x) k = k x"
  by (simp add: ok_def)

lemma await_throw [simp]: "await (throw e) k = (Inl e, [])"
  by (simp add: throw_def)

lemmas io_defs = loadImage_def canvasToBuffer_def upload_stream_def writeFile_def
  generateQRCode_def generateQRCode_disk_def

lemmas card_defs = frontCard_def backCard_def frontOptions_def backOptions_def
  frontTemplatePath_def backTemplatePath_def

lemmas run_defs = generateIDCard_def generateIDCard_disk_def io_defs card_defs qrPath_def
  post_generate_def multer_memory_def handleGenerate_def post_generate_disk_def multer_disk_def
  handleGenerate_disk_def errorHandler_def bodyData_def qrText_def qrOptions_def
  generatedOptions_def uploadsOptions_def createCanvas_def drawImage_def fillText_def
  drawBackText_def fontFamily_def CARD_WIDTH_def CARD_HEIGHT_def QR_SIZE_def QR_POSITION_def
  PHOTO_SIZE_def PHOTO_POSITION_def noFront_def backRefused_def ok_def throw_def Let_def

lemmas eval_defs = js_def trim_def isWhiteSpace_def regChar_def regPattern_def field_def
  validateFormInput_def required_def missing_def jane_def janeData_def passport_def sunny_def
  fileFilter_def allowedTypes_def extname_def lastComponent_def toLowerCase_def lowerUnit_def
  fileSizeLimit_def filename_def safeReg_def safeChar_def path_join_def joinStep_def
  UPLOAD_FOLDER_def OUTPUT_FOLDER_def TEMPLATES_FOLDER_def

section \<open>Validation\<close>

lemma trim_Nil [simp]: "trim [] = []"
  by (simp add: trim_def)








section \<open>QR payload\<close>

text \<open>
  C3. The text handed to the QR encoder is \<open>Name: <name>\<close>, \<open>Reg: <reg>\<close> and
  \<open>Dept: <dept>\<close> on three lines, with width 150, margin 1 and no error-correction level
  given (the library's default); it is a function of the three strings alone. This holds
  for \<open>QRCode.toBuffer\<close> in the Cloudinary server and for \<open>QRCode.toFile\<close> in the disk
  server, whose only further effect is the write of the encoded image.
\<close>

theorem generateQRCode_payload:
  "snd (generateQRCode env n r d) =
     [QrRender (js ''Name: '' @ n @ [0x0A] @ js ''Reg: '' @ r @ [0x0A] @ js ''Dept: '' @ d)
        \<lparr>qr_width = 150, qr_margin = 1, errorCorrectionLevel = None\<rparr>] \<and>
   snd (generateQRCode_disk env n r d p) =
     QrRender (js ''Name: '' @ n @ [0x0A] @ js ''Reg: '' @ r @ [0x0A] @ js ''Dept: '' @ d)
        \<lparr>qr_width = 150, qr_margin = 1, errorCorrectionLevel = None\<rparr> #
     (case qrEncode env
             (js ''Name: '' @ n @ [0x0A] @ js ''Reg: '' @ r @ [0x0A] @ js ''Dept: '' @ d)
             \<lparr>qr_width = 150, qr_margin = 1, errorCorrectionLevel = None\<rparr> of
        None \<Rightarrow> []
      | Some buf \<Rightarrow> if writable env p then [FileWrite p buf] else [])"
  by (simp add: generateQRCode_def generateQRCode_disk_def qrText_def qrOptions_def QR_SIZE_def
      writeFile_def throw_def split: option.splits)

theorem generateQRCode_payload_witness:
  "snd (generateQRCode sunny (js ''Jane Doe'') (js ''2020/1234567'') (js ''Computer Science'')) =
     [QrRender (js ''Name: Jane Doe'' @ [0x0A] @ js ''Reg: 2020/1234567'' @ [0x0A] @
                js ''Dept: Computer Science'')
        \<lparr>qr_width = 150, qr_margin = 1, errorCorrectionLevel = None\<rparr>]"
  using generateQRCode_payload
    [of sunny "js ''Jane Doe''" "js ''2020/1234567''" "js ''Computer Science''" "[]"]
  by (simp add: js_def)

section \<open>Point sizes\<close>



section \<open>The upload filter on a file name that only contains an allowed word\<close>

text \<open>
  C8. The filter is meant to admit only the extensions and content types jpeg, jpg, png
  and gif. Its pattern is not anchored, so an extension that merely contains one of the
  words passes: a part named \<open>photo.pngx\<close> is accepted, multer hands it on and the route
  answers 200. A part named \<open>photo.bmp\<close> of type \<open>image/bmp\<close> is refused.
\<close>

theorem fileFilter_accepts_pngx:
  "extname (js ''photo.pngx'') = js ''.pngx'' \<and>
   fileFilter \<lparr>originalname = js ''photo.pngx'', mimetype = js ''image/png'', content = [1]\<rparr> \<and>
   multer_memory
     \<lparr>body = jane, bodyAtFile = jane,
      photo = Some \<lparr>originalname = js ''photo.pngx'', mimetype = js ''image/png'',
                    content = [1]\<rparr>\<rparr> =
     (Inr (Some \<lparr>originalname = js ''photo.pngx'', mimetype = js ''image/png'',
                 content = [1]\<rparr>), []) \<and>
   status (fst (post_generate sunny
     \<lparr>body = jane, bodyAtFile = jane,
      photo = Some \<lparr>originalname = js ''photo.pngx'', mimetype = js ''image/png'',
                    content = [1]\<rparr>\<rparr>)) = 200 \<and>
   \<not> fileFilter \<lparr>originalname = js ''photo.bmp'', mimetype = js ''image/bmp'', content = [1]\<rparr>"
  by (simp add: run_defs eval_defs)

section \<open>Sanitised names and paths\<close>

lemma splitOn_plain: "d \<notin> set s \<Longrightarrow> splitOn d s = [s]"
  by (induction s) auto

lemma safeReg_chars: "c \<in> set (safeReg r) \<Longrightarrow> safeChar c"
  by (auto simp: safeReg_def safeChar_def)

lemma safeChar_not_sep: "safeChar c \<Longrightarrow> c \<noteq> 0x2F \<and> c \<noteq> 0x2E \<and> c \<noteq> 0x5C"
  by (auto simp: safeChar_def)

lemma cardName_plain:
  assumes "0x2F \<notin> set suffix"
  shows "0x2F \<notin> set (js ''futo_'' @ safeReg r @ suffix)"
proof -
  have "0x2F \<notin> set (safeReg r)"
    using safeReg_chars [of "0x2F" r] safeChar_not_sep [of "0x2F"] by blast
  moreover have "0x2F \<notin> set (js ''futo_'')"
    by (simp add: js_def)
  ultimately show ?thesis using assms by simp
qed

lemma path_join_cardName:
  assumes "0x2F \<notin> set suffix"
  shows "path_join base (js ''futo_'' @ safeReg r @ suffix) =
           base @ [js ''futo_'' @ safeReg r @ suffix]"
proof -
  have "splitOn 0x2F (js ''futo_'' @ safeReg r @ suffix) = [js ''futo_'' @ safeReg r @ suffix]"
    by (rule splitOn_plain) (rule cardName_plain [OF assms])
  moreover have "js ''futo_'' @ safeReg r @ suffix \<noteq> []"
    "js ''futo_'' @ safeReg r @ suffix \<noteq> js ''.''"
    "js ''futo_'' @ safeReg r @ suffix \<noteq> js ''..''"
    by (simp_all add: js_def)
  ultimately show ?thesis by (simp add: path_join_def joinStep_def)
qed

lemma suffix_plain:
  "0x2F \<notin> set (js ''_qr.png'')" "0x2F \<notin> set (js ''_front.png'')"
  "0x2F \<notin> set (js ''_back.png'')" "0x2F \<notin> set (js ''_front'')"
  "0x2F \<notin> set (js ''_back'')"
  by (simp_all add: js_def)

lemmas out_paths = path_join_cardName [OF suffix_plain(1)]
  path_join_cardName [OF suffix_plain(2)] path_join_cardName [OF suffix_plain(3)]

lemma filesWritten_disk:
  "p \<in> set (filesWritten (snd (generateIDCard_disk env fd photoPath))) \<Longrightarrow>
     p = OUTPUT_FOLDER env @ [js ''futo_'' @ safeReg (reg fd) @ js ''_qr.png''] \<or>
     p = OUTPUT_FOLDER env @ [js ''futo_'' @ safeReg (reg fd) @ js ''_front.png''] \<or>
     p = OUTPUT_FOLDER env @ [js ''futo_'' @ safeReg (reg fd) @ js ''_back.png'']"
  by (auto simp: generateIDCard_disk_def io_defs out_paths ok_def throw_def Let_def
      split: option.splits if_splits)

lemma uploadCalls_cloud:
  "u \<in> set (uploadCalls (snd (generateIDCard env fd photoUrl))) \<Longrightarrow>
     \<exists>buf res. u = CloudUpload (frontOptions fd) buf res \<or>
                u = CloudUpload (backOptions fd) buf res"
  by (auto simp: generateIDCard_def io_defs card_defs ok_def throw_def Let_def
      split: option.splits if_splits)

lemma splitOn_segments: "seg \<in> set (splitOn d s) \<Longrightarrow> d \<notin> set seg"
  by (induction s arbitrary: seg) (auto split: if_splits list.splits)

lemma lastComponent_plain: "0x2F \<notin> set (lastComponent p)"
proof (cases "filter (\<lambda>seg. seg \<noteq> []) (splitOn 0x2F p)")
  case Nil
  then show ?thesis by (simp add: lastComponent_def)
next
  case (Cons a list)
  then have "lastComponent p \<in> set (filter (\<lambda>seg. seg \<noteq> []) (splitOn 0x2F p))"
    by (simp add: lastComponent_def del: set_filter)
  then have "lastComponent p \<in> set (splitOn 0x2F p)" by simp
  then show ?thesis by (rule splitOn_segments)
qed

lemma extname_plain: "0x2F \<notin> set (extname p)"
proof -
  have "set (rev (takeWhile (\<lambda>c. c \<noteq> 0x2E) (rev (lastComponent p)))) \<subseteq> set (lastComponent p)"
    using set_takeWhileD by fastforce
  then show ?thesis
    using lastComponent_plain [of p] by (auto simp: extname_def Let_def)
qed

lemma filename_plain: "0x2F \<notin> set (filename req fl)"
  using extname_plain [of "originalname fl"] safeReg_chars [of "0x2F"]
    safeChar_not_sep [of "0x2F"]
  by (auto simp: filename_def Let_def js_def split: option.splits)

lemma filename_confined:
  "path_join (UPLOAD_FOLDER env) (filename req fl) = UPLOAD_FOLDER env @ [filename req fl]"
proof -
  have "splitOn 0x2F (filename req fl) = [filename req fl]"
    by (rule splitOn_plain) (rule filename_plain)
  moreover have "0x5F \<in> set (filename req fl)"
    by (simp add: filename_def Let_def js_def)
  then have "filename req fl \<noteq> []" "filename req fl \<noteq> js ''.''"
    "filename req fl \<noteq> js ''..''"
    by (auto simp: js_def)
  ultimately show ?thesis by (simp add: path_join_def joinStep_def)
qed

text \<open>
  C10. The sanitised registration number consists of letters, digits, underscore and
  hyphen, so it holds no slash, backslash or dot. Every file \<open>generateIDCard\<close> writes on
  the disk server is a single name directly inside the output folder, every card uploaded
  by the Cloudinary server has a public id without slash or dot in the folder of generated
  cards, and \<open>/download-back/:reg\<close> looks up one name directly inside the output folder,
  whatever the registration number is. The name multer gives the stored photo is likewise
  a single name directly inside the upload folder.
\<close>

theorem safeReg_confined:
  "(\<forall>c \<in> set (safeReg r). safeChar c \<and> c \<noteq> 0x2F \<and> c \<noteq> 0x2E \<and> c \<noteq> 0x5C) \<and>
   (\<forall>p \<in> set (filesWritten (snd (generateIDCard_disk env fd photoPath))).
      \<exists>nm. p = OUTPUT_FOLDER env @ [nm] \<and> 0x2F \<notin> set nm \<and> nm \<noteq> js ''..'') \<and>
   (\<forall>u \<in> set (uploadCalls (snd (generateIDCard env fd photoUrl))).
      \<exists>pid buf res. u = CloudUpload (generatedOptions pid) buf res \<and>
        0x2F \<notin> set pid \<and> 0x2E \<notin> set pid) \<and>
   download_back env r =
     (if existsSync env (OUTPUT_FOLDER env @ [js ''futo_'' @ safeReg r @ js ''_back.png''])
      then \<lparr>status = 200,
            payload = SentFile (OUTPUT_FOLDER env @ [js ''futo_'' @ safeReg r @ js ''_back.png''])\<rparr>
      else \<lparr>status = 404, payload = JsonError (Some ''Back card not found'')\<rparr>) \<and>
   0x2F \<notin> set (js ''futo_'' @ safeReg r @ js ''_back.png'') \<and>
   path_join (UPLOAD_FOLDER env) (filename req fl) = UPLOAD_FOLDER env @ [filename req fl] \<and>
   0x2F \<notin> set (filename req fl)"
proof -
  have chars: "\<forall>c \<in> set (safeReg r). safeChar c \<and> c \<noteq> 0x2F \<and> c \<noteq> 0x2E \<and> c \<noteq> 0x5C"
    using safeReg_chars safeChar_not_sep by blast
  have nodot: "0x2E \<notin> set (js ''futo_'' @ safeReg x @ sfx)" if "0x2E \<notin> set sfx" for x sfx
    using that safeReg_chars [of "0x2E" x] safeChar_not_sep [of "0x2E"] by (auto simp: js_def)
  have notup: "js ''futo_'' @ x \<noteq> js ''..''" for x
    by (simp add: js_def)
  have files: "\<forall>p \<in> set (filesWritten (snd (generateIDCard_disk env fd photoPath))).
      \<exists>nm. p = OUTPUT_FOLDER env @ [nm] \<and> 0x2F \<notin> set nm \<and> nm \<noteq> js ''..''"
  proof
    fix p
    assume "p \<in> set (filesWritten (snd (generateIDCard_disk env fd photoPath)))"
    from filesWritten_disk [OF this]
    show "\<exists>nm. p = OUTPUT_FOLDER env @ [nm] \<and> 0x2F \<notin> set nm \<and> nm \<noteq> js ''..''"
      using cardName_plain [OF suffix_plain(1), of "reg fd"]
        cardName_plain [OF suffix_plain(2), of "reg fd"]
        cardName_plain [OF suffix_plain(3), of "reg fd"] notup
      by blast
  qed
  have ups: "\<forall>u \<in> set (uploadCalls (snd (generateIDCard env fd photoUrl))).
      \<exists>pid buf res. u = CloudUpload (generatedOptions pid) buf res \<and>
        0x2F \<notin> set pid \<and> 0x2E \<notin> set pid"
  proof
    fix u
    assume "u \<in> set (uploadCalls (snd (generateIDCard env fd photoUrl)))"
    from uploadCalls_cloud [OF this] obtain buf res where
      u: "u = CloudUpload (frontOptions fd) buf res \<or> u = CloudUpload (backOptions fd) buf res"
      by blast
    have f: "0x2F \<notin> set (js ''futo_'' @ safeReg (reg fd) @ js ''_front'')"
      "0x2F \<notin> set (js ''futo_'' @ safeReg (reg fd) @ js ''_back'')"
      by (rule cardName_plain [OF suffix_plain(4)], rule cardName_plain [OF suffix_plain(5)])
    have d: "0x2E \<notin> set (js ''futo_'' @ safeReg (reg fd) @ js ''_front'')"
      "0x2E \<notin> set (js ''futo_'' @ safeReg (reg fd) @ js ''_back'')"
      by (rule nodot, simp add: js_def, rule nodot, simp add: js_def)
    from u f d
    show "\<exists>pid buf res. u = CloudUpload (generatedOptions pid) buf res \<and>
        0x2F \<notin> set pid \<and> 0x2E \<notin> set pid"
      unfolding frontOptions_def backOptions_def by blast
  qed
  have dl: "download_back env r =
     (if existsSync env (OUTPUT_FOLDER env @ [js ''futo_'' @ safeReg r @ js ''_back.png''])
      then \<lparr>status = 200,
            payload = SentFile (OUTPUT_FOLDER env @ [js ''futo_'' @ safeReg r @ js ''_back.png''])\<rparr>
      else \<lparr>status = 404, payload = JsonError (Some ''Back card not found'')\<rparr>)"
    by (simp add: download_back_def out_paths Let_def)
  show ?thesis
    using chars files ups dl cardName_plain [OF suffix_plain(3), of r]
      filename_confined [of env req fl] filename_plain [of req fl]
    by blast
qed

theorem safeReg_confined_witness:
  "safeReg (js ''../../etc/passwd'') = js ''______etc_passwd'' \<and>
   download_back sunny (js ''../../etc/passwd'') =
     \<lparr>status = 200,
      payload = SentFile [js ''app'', js ''static'', js ''id_cards'',
                          js ''futo_______etc_passwd_back.png'']\<rparr>"
  using safeReg_confined [of "js ''../../etc/passwd''" sunny janeData "[]" "[]"]
  by (simp add: eval_defs)

section \<open>Absent templates\<close>

text \<open>
  C4, as the code has it. When either template is absent, \<open>generateIDCard\<close> fails before
  any canvas is made: with the front or back template-not-found error (the front template
  is looked for first) once the QR code has been generated, or with the error of the QR
  step if that failed. No card image is encoded, written or uploaded. What was made
  before the check stays: on the disk server the QR image has by then been written to
  the output folder (the Cloudinary server keeps the QR code in memory only), and the one
  upload of the Cloudinary route is that of the photo, made by the handler before
  \<open>generateIDCard\<close> is called.
\<close>

theorem template_missing_no_card:
  assumes absent: "\<not> existsSync env (frontTemplatePath env) \<or>
                   \<not> existsSync env (backTemplatePath env)"
  shows "generateIDCard env fd photoUrl =
      (Inl (if qrEncode env (qrText (name fd) (reg fd) (dept fd)) qrOptions = None then QrError
            else if \<not> existsSync env (frontTemplatePath env)
              then FrontTemplateNotFound (frontTemplatePath env)
            else BackTemplateNotFound (backTemplatePath env)),
       [QrRender (qrText (name fd) (reg fd) (dept fd)) qrOptions]) \<and>
     (\<exists>e. fst (generateIDCard_disk env fd photoPath) = Inl e \<and>
        (e = QrError \<or> e = WriteError (qrPath env fd) \<or>
         e = FrontTemplateNotFound (frontTemplatePath env) \<or>
         e = BackTemplateNotFound (backTemplatePath env))) \<and>
     encoded (snd (generateIDCard_disk env fd photoPath)) = [] \<and>
     filesWritten (snd (generateIDCard_disk env fd photoPath)) =
       (case qrEncode env (qrText (name fd) (reg fd) (dept fd)) qrOptions of
          None \<Rightarrow> []
        | Some buf \<Rightarrow> if writable env (qrPath env fd) then [qrPath env fd] else []) \<and>
     encoded (snd (post_generate env req)) = [] \<and>
     uploadCalls (snd (post_generate env req)) =
       (case photo req of
          None \<Rightarrow> []
        | Some f \<Rightarrow>
            if valid (validateFormInput (body req)) \<and> fileFilter f \<and>
               length (content f) \<le> fileSizeLimit
            then [CloudUpload uploadsOptions (content f)
                    (cloudStore env uploadsOptions (content f))]
            else [])"
proof -
  have cloud: "generateIDCard env fd photoUrl =
      (Inl (if qrEncode env (qrText (name fd) (reg fd) (dept fd)) qrOptions = None then QrError
            else if \<not> existsSync env (frontTemplatePath env)
              then FrontTemplateNotFound (frontTemplatePath env)
            else BackTemplateNotFound (backTemplatePath env)),
       [QrRender (qrText (name fd) (reg fd) (dept fd)) qrOptions])"
    for fd photoUrl
    using absent
    by (auto simp: generateIDCard_def io_defs card_defs throw_def Let_def split: option.splits)
  have route: "encoded (snd (post_generate env req)) = [] \<and>
     uploadCalls (snd (post_generate env req)) =
       (case photo req of
          None \<Rightarrow> []
        | Some f \<Rightarrow>
            if valid (validateFormInput (body req)) \<and> fileFilter f \<and>
               length (content f) \<le> fileSizeLimit
            then [CloudUpload uploadsOptions (content f)
                    (cloudStore env uploadsOptions (content f))]
            else [])"
    by (simp add: post_generate_def multer_memory_def handleGenerate_def upload_stream_def
        cloud ok_def throw_def Let_def split: option.splits)
  have disk: "generateIDCard_disk env fd photoPath =
      (case qrEncode env (qrText (name fd) (reg fd) (dept fd)) qrOptions of
         None \<Rightarrow> (Inl QrError, [QrRender (qrText (name fd) (reg fd) (dept fd)) qrOptions])
       | Some buf \<Rightarrow>
           if \<not> writable env (qrPath env fd) then
             (Inl (WriteError (qrPath env fd)),
              [QrRender (qrText (name fd) (reg fd) (dept fd)) qrOptions])
           else
             (Inl (if \<not> existsSync env (frontTemplatePath env)
                   then FrontTemplateNotFound (frontTemplatePath env)
                   else BackTemplateNotFound (backTemplatePath env)),
              [QrRender (qrText (name fd) (reg fd) (dept fd)) qrOptions,
               FileWrite (qrPath env fd) buf]))"
    using absent
    by (auto simp: generateIDCard_disk_def io_defs card_defs qrPath_def out_paths throw_def
        Let_def split: option.splits)
  show ?thesis
    unfolding disk using route by (simp add: cloud split: option.splits)
qed

theorem template_missing_no_card_witness:
  "\<not> existsSync noFront (frontTemplatePath noFront) \<and>
   fst (generateIDCard noFront janeData (js ''https://cdn/img'')) =
     Inl (FrontTemplateNotFound [js ''app'', js ''static'', js ''front_template.png'']) \<and>
   encoded (snd (generateIDCard_disk noFront janeData [js ''me.png''])) = []"
proof -
  have a: "\<not> existsSync noFront (frontTemplatePath noFront)"
    by (simp add: noFront_def frontTemplatePath_def eval_defs)
  then have b: "\<not> existsSync noFront (frontTemplatePath noFront) \<or>
                \<not> existsSync noFront (backTemplatePath noFront)"
    by simp
  have c: "frontTemplatePath noFront = [js ''app'', js ''static'', js ''front_template.png'']"
    by (simp add: noFront_def frontTemplatePath_def eval_defs)
  have d: "qrEncode noFront t opts = Some [0x51, 0x52]" for t opts
    by (simp add: noFront_def sunny_def)
  show ?thesis
    using a template_missing_no_card
        [OF b, of janeData "js ''https://cdn/img''" "[js ''me.png'']"
          "\<lparr>body = jane, bodyAtFile = jane, photo = None\<rparr>"]
    by (simp add: c d)
qed

text \<open>
  The claim as it is written fails: with the front template absent, the disk server has
  written the QR image of the failed request, and the Cloudinary server has uploaded its
  photo before \<open>generateIDCard\<close> was called.
\<close>

theorem template_missing_counterexample:
  "filesWritten (snd (generateIDCard_disk noFront janeData [js ''me.png''])) =
     [js ''app'', js ''static'', js ''id_cards'', js ''futo_2020_1234567_qr.png''] # [] \<and>
   fst (generateIDCard_disk noFront janeData [js ''me.png'']) =
     Inl (FrontTemplateNotFound [js ''app'', js ''static'', js ''front_template.png'']) \<and>
   post_generate noFront \<lparr>body = jane, bodyAtFile = jane, photo = Some passport\<rparr> =
     (\<lparr>status = 500,
       payload = JsonCaught
         (FrontTemplateNotFound [js ''app'', js ''static'', js ''front_template.png''])\<rparr>,
      [CloudUpload uploadsOptions [1, 2, 3] (Some (js ''https://cdn/img'')),
       QrRender (js ''Name: Jane Doe'' @ [0x0A] @ js ''Reg: 2020/1234567'' @ [0x0A] @
                 js ''Dept: Computer Science'')
         \<lparr>qr_width = 150, qr_margin = 1, errorCorrectionLevel = None\<rparr>])"
  by (simp add: run_defs eval_defs)

section \<open>The two cards\<close>




section \<open>A failure after the front card is stored\<close>

lemma post_generate_outcomes:
  "(\<exists>f b. fst (post_generate env req) = \<lparr>status = 200, payload = JsonSuccess f b\<rparr>) \<or>
   (\<exists>m. fst (post_generate env req) = \<lparr>status = 400, payload = JsonError m\<rparr>) \<or>
   (\<exists>m. fst (post_generate env req) = \<lparr>status = 413, payload = JsonError m\<rparr>) \<or>
   (\<exists>e. fst (post_generate env req) = \<lparr>status = 500, payload = JsonCaught e\<rparr>) \<or>
   (\<exists>e. fst (post_generate env req) = \<lparr>status = 500, payload = JsonUnhandled e\<rparr>)"
  by (auto simp: post_generate_def multer_memory_def handleGenerate_def errorHandler_def
      ok_def throw_def Let_def split: option.splits prod.splits sum.splits)

text \<open>
  C5. Let the front card be stored by the provider, and let the back card fail, either
  because its template does not load or because the provider refuses it. Then
  \<open>generateIDCard\<close> throws, and the route answers 500 with that error only. The calls
  made to the provider are, in order, the photo, the front card and, if the back card was
  rendered, one refused upload of it: nothing is tried twice and nothing is removed, so
  the provider is left holding the photo and the front card without the back card.
  Whatever the request, the answer of the route is either the success with both URLs or
  an error.
\<close>

theorem front_upload_not_rolled_back:
  assumes qr: "qrEncode env (qrText (name fd) (reg fd) (dept fd)) qrOptions = Some qr"
    and tmpl: "existsSync env (frontTemplatePath env)" "existsSync env (backTemplatePath env)"
    and imgs: "loadable env (SrcPath (frontTemplatePath env))" "loadable env (SrcBuffer qr)"
      "loadable env (SrcUrl photoUrl)"
    and up1: "cloudStore env (frontOptions fd)
                (toBuffer env (frontCard env (SrcBuffer qr) (SrcUrl photoUrl))) = Some furl"
    and bk: "\<not> loadable env (SrcPath (backTemplatePath env)) \<or>
             cloudStore env (backOptions fd) (toBuffer env (backCard env fd)) = None"
    and req: "valid (validateFormInput (body req))" "bodyData (body req) = fd"
      "photo req = Some f" "fileFilter f" "length (content f) \<le> fileSizeLimit"
      "cloudStore env uploadsOptions (content f) = Some photoUrl"
  shows "(\<exists>e. fst (generateIDCard env fd photoUrl) = Inl e \<and>
            fst (post_generate env req) = \<lparr>status = 500, payload = JsonCaught e\<rparr>) \<and>
     uploadCalls (snd (generateIDCard env fd photoUrl)) =
       CloudUpload (frontOptions fd)
         (toBuffer env (frontCard env (SrcBuffer qr) (SrcUrl photoUrl))) (Some furl) #
       (if loadable env (SrcPath (backTemplatePath env))
        then [CloudUpload (backOptions fd) (toBuffer env (backCard env fd)) None] else []) \<and>
     uploadCalls (snd (post_generate env req)) =
       CloudUpload uploadsOptions (content f) (Some photoUrl) #
       uploadCalls (snd (generateIDCard env fd photoUrl)) \<and>
     stored (snd (post_generate env req)) =
       [(uploadsOptions, content f),
        (frontOptions fd, toBuffer env (frontCard env (SrcBuffer qr) (SrcUrl photoUrl)))] \<and>
     ((\<exists>a b. fst (post_generate env' req') = \<lparr>status = 200, payload = JsonSuccess a b\<rparr>) \<or>
      (\<exists>m. fst (post_generate env' req') = \<lparr>status = 400, payload = JsonError m\<rparr>) \<or>
      (\<exists>m. fst (post_generate env' req') = \<lparr>status = 413, payload = JsonError m\<rparr>) \<or>
      (\<exists>e. fst (post_generate env' req') = \<lparr>status = 500, payload = JsonCaught e\<rparr>) \<or>
      (\<exists>e. fst (post_generate env' req') = \<lparr>status = 500, payload = JsonUnhandled e\<rparr>))"
proof -
  obtain e t where run: "generateIDCard env fd photoUrl = (Inl e, t)"
    and calls: "uploadCalls t =
       CloudUpload (frontOptions fd)
         (toBuffer env (frontCard env (SrcBuffer qr) (SrcUrl photoUrl))) (Some furl) #
       (if loadable env (SrcPath (backTemplatePath env))
        then [CloudUpload (backOptions fd) (toBuffer env (backCard env fd)) None] else [])"
    and kept: "stored t =
       [(frontOptions fd, toBuffer env (frontCard env (SrcBuffer qr) (SrcUrl photoUrl)))]"
    using qr tmpl imgs up1 bk
    by (cases "loadable env (SrcPath (backTemplatePath env))")
      (simp_all add: generateIDCard_def io_defs card_defs throw_def Let_def)
  have handler: "post_generate env req =
      (\<lparr>status = 500, payload = JsonCaught e\<rparr>,
       CloudUpload uploadsOptions (content f) (Some photoUrl) # t)"
    using req run
    by (simp add: post_generate_def multer_memory_def handleGenerate_def upload_stream_def
        ok_def Let_def)
  show ?thesis
    using post_generate_outcomes [of env' req'] by (simp add: run calls kept handler)
qed

theorem front_upload_not_rolled_back_witness:
  "fst (post_generate backRefused \<lparr>body = jane, bodyAtFile = jane, photo = Some passport\<rparr>) =
     \<lparr>status = 500, payload = JsonCaught (UploadError (backOptions janeData))\<rparr> \<and>
   uploadCalls
     (snd (post_generate backRefused \<lparr>body = jane, bodyAtFile = jane, photo = Some passport\<rparr>)) =
     [CloudUpload uploadsOptions [1, 2, 3] (Some (js ''https://cdn/img'')),
      CloudUpload (frontOptions janeData) [0x89, 0x50, 0x4E, 0x47] (Some (js ''https://cdn/img'')),
      CloudUpload (backOptions janeData) [0x89, 0x50, 0x4E, 0x47] None]"
proof -
  let ?req = "\<lparr>body = jane, bodyAtFile = jane, photo = Some passport\<rparr>"
  have env: "qrEncode backRefused t opts = Some [0x51, 0x52]" "existsSync backRefused p"
    "loadable backRefused s" "toBuffer backRefused c = [0x89, 0x50, 0x4E, 0x47]" for t opts p s c
    by (simp_all add: backRefused_def sunny_def)
  have up1: "cloudStore backRefused (frontOptions janeData) b = Some (js ''https://cdn/img'')"
    for b
    by (simp add: backRefused_def sunny_def frontOptions_def generatedOptions_def eval_defs)
  have up2: "cloudStore backRefused (backOptions janeData) b = None" for b
    by (simp add: backRefused_def sunny_def backOptions_def generatedOptions_def eval_defs)
  have up0: "cloudStore backRefused uploadsOptions b = Some (js ''https://cdn/img'')" for b
    by (simp add: backRefused_def sunny_def uploadsOptions_def)
  have v: "valid (validateFormInput (body ?req))" "bodyData (body ?req) = janeData"
    "fileFilter passport" "length (content passport) \<le> fileSizeLimit"
    by (simp_all add: eval_defs bodyData_def)
  have e: "fst (generateIDCard backRefused janeData (js ''https://cdn/img'')) =
      Inl (UploadError (backOptions janeData))"
    by (simp add: generateIDCard_def io_defs env up1 [unfolded frontOptions_def]
        up2 [unfolded backOptions_def] backOptions_def Let_def)
  show ?thesis
    using front_upload_not_rolled_back
        [of backRefused janeData "[0x51, 0x52]" "js ''https://cdn/img''"
          "js ''https://cdn/img''" ?req passport,
          OF env(1) env(2) env(2) env(3) env(3) env(3) up1 _ v(1) v(2) _ v(3) v(4) up0]
      up2 e
    by (simp add: env passport_def)
qed

section \<open>The name on the back card\<close>










end
